theory Spec2Isabelle
  imports Complex_Main "HOL-Library.Log_Nat"
begin

section \<open>JavaScript values used by the focal point picker\<close>

text \<open>
  The component \<^verbatim>\<open>FocalPointPicker\<close> of
  \<^verbatim>\<open>packages/components/src/focal-point-picker/index.native.js\<close> computes with
  JavaScript numbers and with \<^verbatim>\<open>undefined\<close> (the value of
  \<^verbatim>\<open>containerSize?.width\<close> while \<^verbatim>\<open>containerSize\<close> is \<^verbatim>\<open>null\<close>, and of an
  axis that \<^verbatim>\<open>setPosition\<close> was not given).

  A finite number is a rational here, and the two zeros are one value \<open>Num 0\<close>.  The
  special values \<^verbatim>\<open>NaN\<close>, \<^verbatim>\<open>Infinity\<close> and \<^verbatim>\<open>-Infinity\<close> are constructors of their
  own, so that a division by an unknown or zero dimension has the value JavaScript
  gives it.  The operators \<open>js_div\<close>, \<open>js_mul\<close> and \<open>js_add\<close> below compute the
  exact quotient, product and sum.  The product that the component hands to
  \<^verbatim>\<open>Math.round\<close> is computed by \<open>js_mul64\<close> instead, which rounds to the nearest
  IEEE 754 double as JavaScript does: there the integer that comes out depends on the
  rounding (\<^verbatim>\<open>0.145 * 100\<close> is \<^verbatim>\<open>14.499999999999998\<close>, which rounds to 14).
\<close>

datatype jsval = Undefined | Num rat | NaN | PosInf | NegInf

text \<open>\<^verbatim>\<open>ToNumber\<close>: \<^verbatim>\<open>undefined\<close> becomes \<^verbatim>\<open>NaN\<close>, a number is itself.\<close>

fun toNumber :: "jsval \<Rightarrow> jsval" where
  "toNumber Undefined = NaN"
| "toNumber v = v"

text \<open>The operator \<^verbatim>\<open>/\<close> on numbers.\<close>

fun num_div :: "jsval \<Rightarrow> jsval \<Rightarrow> jsval" where
  "num_div (Num a) (Num b) =
     (if b = 0 then (if a = 0 then NaN else if 0 < a then PosInf else NegInf)
      else Num (a / b))"
| "num_div (Num a) PosInf = Num 0"
| "num_div (Num a) NegInf = Num 0"
| "num_div PosInf (Num b) = (if b < 0 then NegInf else PosInf)"
| "num_div NegInf (Num b) = (if b < 0 then PosInf else NegInf)"
| "num_div a b = NaN"

definition js_div :: "jsval \<Rightarrow> jsval \<Rightarrow> jsval" where
  "js_div a b = num_div (toNumber a) (toNumber b)"

text \<open>The operator \<^verbatim>\<open>*\<close> on numbers.\<close>

fun num_mul :: "jsval \<Rightarrow> jsval \<Rightarrow> jsval" where
  "num_mul (Num a) (Num b) = Num (a * b)"
| "num_mul (Num a) PosInf = (if a = 0 then NaN else if 0 < a then PosInf else NegInf)"
| "num_mul (Num a) NegInf = (if a = 0 then NaN else if 0 < a then NegInf else PosInf)"
| "num_mul PosInf (Num b) = (if b = 0 then NaN else if 0 < b then PosInf else NegInf)"
| "num_mul NegInf (Num b) = (if b = 0 then NaN else if 0 < b then NegInf else PosInf)"
| "num_mul PosInf PosInf = PosInf"
| "num_mul PosInf NegInf = NegInf"
| "num_mul NegInf PosInf = NegInf"
| "num_mul NegInf NegInf = PosInf"
| "num_mul a b = NaN"

definition js_mul :: "jsval \<Rightarrow> jsval \<Rightarrow> jsval" where
  "js_mul a b = num_mul (toNumber a) (toNumber b)"

subsection \<open>Rounding to a double\<close>

text \<open>
  IEEE 754 binary64, rounding to nearest with ties to even.  \<open>pow2 e\<close> is \<open>2\<close> to
  the power \<open>e\<close>; \<open>exponent m\<close> is the \<open>e\<close> with \<open>2 ^ e \<le> m < 2 ^ (e + 1)\<close> for a
  positive \<open>m\<close>.  A double with the exponent \<open>e\<close> is a multiple of \<open>2 ^ (e - 52)\<close>,
  and no exponent is below \<open>-1022\<close> (the subnormal numbers share it).
\<close>

definition pow2 :: "int \<Rightarrow> rat" where
  "pow2 e = (if 0 \<le> e then 2 ^ nat e else 1 / 2 ^ nat (- e))"

definition exponent :: "rat \<Rightarrow> int" where
  "exponent m =
     (let (p, q) = quotient_of m; e0 = bitlen p - bitlen q
      in if pow2 e0 \<le> m then e0 else e0 - 1)"

definition roundTiesToEven :: "rat \<Rightarrow> int" where
  "roundTiesToEven n =
     (let k = \<lfloor>n\<rfloor>; d = n - of_int k
      in if d < 1 / 2 then k else if 1 / 2 < d then k + 1 else if even k then k else k + 1)"

definition double_of :: "rat \<Rightarrow> rat" where
  "double_of q =
     (let e = max (exponent \<bar>q\<bar>) (- 1022); u = pow2 (e - 52)
      in of_int (roundTiesToEven (q / u)) * u)"

text \<open>A rounded magnitude of \<open>2 ^ 1024\<close> or more has overflowed to an infinity.\<close>

definition double_result :: "rat \<Rightarrow> jsval" where
  "double_result q =
     (let r = double_of q
      in if pow2 1024 \<le> r then PosInf else if r \<le> - pow2 1024 then NegInf else Num r)"

text \<open>
  A finite number read as a double: the double nearest to it, which is the number
  itself when it is a double (and what a decimal literal such as \<^verbatim>\<open>0.333\<close> denotes).
\<close>

fun toDouble :: "jsval \<Rightarrow> jsval" where
  "toDouble (Num q) = double_result q"
| "toDouble v = v"

text \<open>The operator \<^verbatim>\<open>*\<close> on doubles: the exact product of the two doubles, rounded.\<close>

definition js_mul64 :: "jsval \<Rightarrow> jsval \<Rightarrow> jsval" where
  "js_mul64 a b = toDouble (num_mul (toDouble (toNumber a)) (toDouble (toNumber b)))"

text \<open>The operator \<^verbatim>\<open>+\<close> on numbers (no strings occur in the component).\<close>

fun num_add :: "jsval \<Rightarrow> jsval \<Rightarrow> jsval" where
  "num_add (Num a) (Num b) = Num (a + b)"
| "num_add (Num a) PosInf = PosInf"
| "num_add (Num a) NegInf = NegInf"
| "num_add PosInf (Num b) = PosInf"
| "num_add NegInf (Num b) = NegInf"
| "num_add PosInf PosInf = PosInf"
| "num_add NegInf NegInf = NegInf"
| "num_add a b = NaN"

definition js_add :: "jsval \<Rightarrow> jsval \<Rightarrow> jsval" where
  "js_add a b = num_add (toNumber a) (toNumber b)"

text \<open>
  \<^verbatim>\<open>Math.round\<close>: the nearest integer, a tie going towards \<^verbatim>\<open>+Infinity\<close>, that is
  \<open>\<lfloor>r + 1/2\<rfloor>\<close>; \<^verbatim>\<open>NaN\<close> and the infinities are returned unchanged.
\<close>

fun num_round :: "jsval \<Rightarrow> jsval" where
  "num_round (Num r) = Num (of_int \<lfloor>r + 1 / 2\<rfloor>)"
| "num_round v = v"

definition Math_round :: "jsval \<Rightarrow> jsval" where
  "Math_round v = num_round (toNumber v)"

text \<open>
  Truthiness, the test of \<^verbatim>\<open>x ? { x } : {}\<close>: \<^verbatim>\<open>undefined\<close>, \<^verbatim>\<open>NaN\<close> and zero
  are falsy, every other number is truthy.
\<close>

fun truthy :: "jsval \<Rightarrow> bool" where
  "truthy Undefined = False"
| "truthy NaN = False"
| "truthy (Num r) = (r \<noteq> 0)"
| "truthy PosInf = True"
| "truthy NegInf = True"

text \<open>Strict equality \<^verbatim>\<open>===\<close> and its negation \<^verbatim>\<open>!==\<close>: \<^verbatim>\<open>NaN\<close> equals nothing.\<close>

fun strict_eq :: "jsval \<Rightarrow> jsval \<Rightarrow> bool" where
  "strict_eq NaN b = False"
| "strict_eq a NaN = False"
| "strict_eq a b = (a = b)"

definition strict_neq :: "jsval \<Rightarrow> jsval \<Rightarrow> bool" where
  "strict_neq a b = (\<not> strict_eq a b)"

text \<open>
  The comparison \<^verbatim>\<open><\<close> on numbers, used to state what the specification says of
  positive sizes and of coordinates beyond the container: false as soon as one side
  is \<^verbatim>\<open>NaN\<close> or \<^verbatim>\<open>undefined\<close>.
\<close>

fun num_lt :: "jsval \<Rightarrow> jsval \<Rightarrow> bool" where
  "num_lt (Num a) (Num b) = (a < b)"
| "num_lt (Num a) PosInf = True"
| "num_lt NegInf (Num b) = True"
| "num_lt NegInf PosInf = True"
| "num_lt a b = False"

definition js_lt :: "jsval \<Rightarrow> jsval \<Rightarrow> bool" where
  "js_lt a b = num_lt (toNumber a) (toNumber b)"

text \<open>
  An object with number-valued properties (the focal point, a partial update) is a
  map from property names; reading an absent property gives \<^verbatim>\<open>undefined\<close>.
\<close>

type_synonym jsobj = "string \<rightharpoonup> jsval"

definition getProp :: "jsobj \<Rightarrow> string \<Rightarrow> jsval" where
  "getProp obj k = (case obj k of None \<Rightarrow> Undefined | Some v \<Rightarrow> v)"

section \<open>The animated value of react-native\<close>

text \<open>
  \<^verbatim>\<open>Animated.ValueXY\<close> belongs to the library react-native, not to this repository.
  It is modelled after the library's documented behaviour, with the field
  \<^verbatim>\<open>_value\<close> that the component reads itself: an \<^verbatim>\<open>Animated.Value\<close> holds a value
  and an offset; \<^verbatim>\<open>setValue\<close> replaces the value and leaves the offset,
  \<^verbatim>\<open>setOffset\<close> replaces the offset and leaves the value, \<^verbatim>\<open>flattenOffset\<close> adds
  the offset to the value and resets the offset to zero, and the value that is read
  out is the value plus the offset.
\<close>

record animatedValue =
  av_value :: jsval
  av_offset :: jsval

record animatedValueXY =
  xy_x :: animatedValue
  xy_y :: animatedValue

definition av_new :: animatedValue where
  "av_new = \<lparr>av_value = Num 0, av_offset = Num 0\<rparr>"

definition av_setValue :: "jsval \<Rightarrow> animatedValue \<Rightarrow> animatedValue" where
  "av_setValue v a = a\<lparr>av_value := v\<rparr>"

definition av_setOffset :: "jsval \<Rightarrow> animatedValue \<Rightarrow> animatedValue" where
  "av_setOffset off a = a\<lparr>av_offset := off\<rparr>"

definition av_flattenOffset :: "animatedValue \<Rightarrow> animatedValue" where
  "av_flattenOffset a = \<lparr>av_value = js_add (av_value a) (av_offset a), av_offset = Num 0\<rparr>"

definition av_getValue :: "animatedValue \<Rightarrow> jsval" where
  "av_getValue a = js_add (av_value a) (av_offset a)"

definition xy_new :: animatedValueXY where
  "xy_new = \<lparr>xy_x = av_new, xy_y = av_new\<rparr>"

definition xy_setValue :: "jsval \<Rightarrow> jsval \<Rightarrow> animatedValueXY \<Rightarrow> animatedValueXY" where
  "xy_setValue vx vy p = \<lparr>xy_x = av_setValue vx (xy_x p), xy_y = av_setValue vy (xy_y p)\<rparr>"

definition xy_setOffset :: "jsval \<Rightarrow> jsval \<Rightarrow> animatedValueXY \<Rightarrow> animatedValueXY" where
  "xy_setOffset ox oy p = \<lparr>xy_x = av_setOffset ox (xy_x p), xy_y = av_setOffset oy (xy_y p)\<rparr>"

definition xy_flattenOffset :: "animatedValueXY \<Rightarrow> animatedValueXY" where
  "xy_flattenOffset p = \<lparr>xy_x = av_flattenOffset (xy_x p), xy_y = av_flattenOffset (xy_y p)\<rparr>"

definition xy_getValue :: "animatedValueXY \<Rightarrow> jsval \<times> jsval" where
  "xy_getValue p = (av_getValue (xy_x p), av_getValue (xy_y p))"

section \<open>The component's state and its handlers\<close>

record dimensions =
  width :: jsval
  height :: jsval

text \<open>
  The five \<^verbatim>\<open>useState\<close> cells and the \<^verbatim>\<open>useRef\<close> cell of the component.
  \<open>sliderKey\<close> is a natural number: it starts at \<open>0\<close> and only ever has \<open>1\<close>
  added, which a double does exactly below \<open>2 ^ 53\<close>.
\<close>

record state =
  containerSize :: "dimensions option"
  sliderKey :: nat
  tooltipVisible :: bool
  displayPlaceholder :: bool
  videoNaturalSize :: "dimensions option"
  pan :: animatedValueXY

definition initial :: state where
  "initial = \<lparr>containerSize = None, sliderKey = 0, tooltipVisible = True,
     displayPlaceholder = True, videoNaturalSize = None, pan = xy_new\<rparr>"

text \<open>\<^verbatim>\<open>containerSize?.width\<close> and \<^verbatim>\<open>containerSize?.height\<close>.\<close>

definition opt_width :: "dimensions option \<Rightarrow> jsval" where
  "opt_width cs = (case cs of None \<Rightarrow> Undefined | Some c \<Rightarrow> width c)"

definition opt_height :: "dimensions option \<Rightarrow> jsval" where
  "opt_height cs = (case cs of None \<Rightarrow> Undefined | Some c \<Rightarrow> height c)"

text \<open>
  What a handler does to the component's collaborators: a call of the property
  \<^verbatim>\<open>shouldEnableBottomSheetScroll\<close>, or a call of \<^verbatim>\<open>onChange\<close> with an updater
  function from the previous focal point to the next.
\<close>

datatype effect =
  ShouldEnableBottomSheetScroll bool
| OnChange "jsobj \<Rightarrow> jsobj"

text \<open>
  \<^verbatim>\<open>setPosition( { x, y } )\<close> hands to \<^verbatim>\<open>onChange\<close> the function
  \<^verbatim>\<open>prevState => ( { ...prevState, ...( x ? { x } : {} ), ...( y ? { y } : {} ) } )\<close>.
\<close>

definition setPosition :: "jsval \<Rightarrow> jsval \<Rightarrow> jsobj \<Rightarrow> jsobj" where
  "setPosition x y = (\<lambda>prevState.
     prevState
       ++ (if truthy x then [''x'' \<mapsto> x] else Map.empty)
       ++ (if truthy y then [''y'' \<mapsto> y] else Map.empty))"

text \<open>
  The partial update an updater carries: the properties it writes over an empty
  previous state.
\<close>

definition partialUpdate :: "(jsobj \<Rightarrow> jsobj) \<Rightarrow> jsobj" where
  "partialUpdate u = u Map.empty"

text \<open>
  The body of the component function, run at every render with the current
  \<^verbatim>\<open>focalPoint\<close> property: once the container is measured, the cursor is placed at
  the focal point's pixel position.
\<close>

definition render :: "jsobj \<Rightarrow> state \<Rightarrow> state" where
  "render focalPoint s =
     (case containerSize s of
        None \<Rightarrow> s
      | Some c \<Rightarrow> s\<lparr>pan := xy_setValue (js_mul (getProp focalPoint ''x'') (width c))
                                      (js_mul (getProp focalPoint ''y'') (height c)) (pan s)\<rparr>)"

text \<open>\<^verbatim>\<open>onLayout\<close> (the specification's \<^verbatim>\<open>onLayoutMeasured\<close>).\<close>

definition onLayout :: "jsval \<Rightarrow> jsval \<Rightarrow> state \<Rightarrow> state" where
  "onLayout w h s =
     (if strict_neq w (Num 0) \<and> strict_neq h (Num 0) \<and>
         (strict_neq (opt_width (containerSize s)) w \<or>
          strict_neq (opt_height (containerSize s)) h)
      then s\<lparr>containerSize := Some \<lparr>width = w, height = h\<rparr>\<rparr>
      else s)"

text \<open>\<^verbatim>\<open>onPanResponderGrant\<close> (the specification's \<^verbatim>\<open>onDragStart\<close>).\<close>

definition onPanResponderGrant :: "jsval \<Rightarrow> jsval \<Rightarrow> state \<Rightarrow> state \<times> effect list" where
  "onPanResponderGrant x y s =
     (let p = xy_setValue x y (pan s);
          p' = xy_setOffset (av_value (xy_x p)) (av_value (xy_y p)) p
      in (s\<lparr>pan := p'\<rparr>, [ShouldEnableBottomSheetScroll False]))"

text \<open>
  \<^verbatim>\<open>onPanResponderMove\<close> (the specification's \<^verbatim>\<open>onDragMove\<close>) is
  \<^verbatim>\<open>Animated.event( [ null, { dx: pan.x, dy: pan.y } ] )\<close>: the gesture's cumulative
  displacement is written to the two animated values with \<^verbatim>\<open>setValue\<close>.
\<close>

definition onPanResponderMove :: "jsval \<Rightarrow> jsval \<Rightarrow> state \<Rightarrow> state \<times> effect list" where
  "onPanResponderMove dx dy s = (s\<lparr>pan := xy_setValue dx dy (pan s)\<rparr>, [])"

text \<open>\<^verbatim>\<open>onPanResponderRelease\<close> (the specification's \<^verbatim>\<open>onDragEnd\<close>).\<close>

definition onPanResponderRelease :: "jsval \<Rightarrow> jsval \<Rightarrow> state \<Rightarrow> state \<times> effect list" where
  "onPanResponderRelease x y s =
     (s\<lparr>tooltipVisible := False,
        pan := xy_flattenOffset (pan s),
        sliderKey := sliderKey s + 1\<rparr>,
      [ShouldEnableBottomSheetScroll True,
       OnChange (setPosition (js_div x (opt_width (containerSize s)))
                             (js_div y (opt_height (containerSize s))))])"

text \<open>
  The \<^verbatim>\<open>onChange\<close> handlers of the two \<^verbatim>\<open>RangeControl\<close>s (the specification's
  \<^verbatim>\<open>onAxisSliderChanged\<close>): \<^verbatim>\<open>setPosition( { x: x / 100 } )\<close> and
  \<^verbatim>\<open>setPosition( { y: y / 100 } )\<close>; the other axis is \<^verbatim>\<open>undefined\<close>.
\<close>

datatype axis = AxisX | AxisY

fun onAxisSliderChanged :: "axis \<Rightarrow> jsval \<Rightarrow> state \<Rightarrow> state \<times> effect list" where
  "onAxisSliderChanged AxisX v s = (s, [OnChange (setPosition (js_div v (Num 100)) Undefined)])"
| "onAxisSliderChanged AxisY v s = (s, [OnChange (setPosition Undefined (js_div v (Num 100)))])"

fun axisKey :: "axis \<Rightarrow> string" where
  "axisKey AxisX = ''x''"
| "axisKey AxisY = ''y''"

text \<open>\<^verbatim>\<open>onImageDataLoad\<close> of the image and \<^verbatim>\<open>onLoad\<close> of the video.\<close>

definition onImageDataLoad :: "state \<Rightarrow> state" where
  "onImageDataLoad s = s\<lparr>displayPlaceholder := False\<rparr>"

definition onLoad :: "jsval \<Rightarrow> jsval \<Rightarrow> state \<Rightarrow> state" where
  "onLoad h w s = s\<lparr>videoNaturalSize := Some \<lparr>width = w, height = h\<rparr>,
                     displayPlaceholder := False\<rparr>"

text \<open>
  The \<^verbatim>\<open>value\<close> property handed to the slider of an axis,
  \<^verbatim>\<open>Math.round( focalPoint.x * 100 )\<close>; the product is the double product.
\<close>

definition sliderValue :: "axis \<Rightarrow> jsobj \<Rightarrow> jsval" where
  "sliderValue a focalPoint = Math_round (js_mul64 (getProp focalPoint (axisKey a)) (Num 100))"

text \<open>
  Everything that can happen to a mounted component, and a run of such events.  A
  render can come between any two events, with whatever focal point the owner holds.
\<close>

datatype event =
  Render jsobj
| Layout jsval jsval
| Grant jsval jsval
| Move jsval jsval
| Release jsval jsval
| Slider axis jsval
| ImageDataLoad
| VideoLoad jsval jsval

fun handle :: "event \<Rightarrow> state \<Rightarrow> state \<times> effect list" where
  "handle (Render fp) s = (render fp s, [])"
| "handle (Layout w h) s = (onLayout w h s, [])"
| "handle (Grant x y) s = onPanResponderGrant x y s"
| "handle (Move dx dy) s = onPanResponderMove dx dy s"
| "handle (Release x y) s = onPanResponderRelease x y s"
| "handle (Slider a v) s = onAxisSliderChanged a v s"
| "handle ImageDataLoad s = (onImageDataLoad s, [])"
| "handle (VideoLoad h w) s = (onLoad h w s, [])"

fun run :: "event list \<Rightarrow> state \<Rightarrow> state \<times> effect list" where
  "run [] s = (s, [])"
| "run (e # es) s =
     (let (s', out) = handle e s; (s'', out') = run es s' in (s'', out @ out'))"

text \<open>Which events start and end a gesture.\<close>

fun isGrant :: "event \<Rightarrow> bool" where
  "isGrant (Grant x y) = True"
| "isGrant e = False"

fun isRelease :: "event \<Rightarrow> bool" where
  "isRelease (Release x y) = True"
| "isRelease e = False"

text \<open>
  The updater functions a list of effects hands to \<^verbatim>\<open>onChange\<close>, in order, and
  the partial updates they carry.
\<close>

fun updaters :: "effect list \<Rightarrow> (jsobj \<Rightarrow> jsobj) list" where
  "updaters [] = []"
| "updaters (OnChange u # out) = u # updaters out"
| "updaters (ShouldEnableBottomSheetScroll b # out) = updaters out"

definition emitted :: "effect list \<Rightarrow> jsobj list" where
  "emitted out = map partialUpdate (updaters out)"

section \<open>The slider the value is handed to\<close>





section \<open>Auxiliary facts\<close>

lemma partialUpdate_setPosition:
  "partialUpdate (setPosition x y) =
     (if truthy x then [''x'' \<mapsto> x] else Map.empty)
       ++ (if truthy y then [''y'' \<mapsto> y] else Map.empty)"
  by (simp add: partialUpdate_def setPosition_def)

lemma js_div_Undefined [simp]: "js_div x Undefined = NaN"
  by (cases x) (simp_all add: js_div_def)

lemma emitted_release:
  "emitted (snd (onPanResponderRelease x y s)) =
     [partialUpdate (setPosition (js_div x (opt_width (containerSize s)))
                                 (js_div y (opt_height (containerSize s))))]"
  by (simp add: onPanResponderRelease_def emitted_def)

lemma js_div_beyond:
  assumes "js_lt (Num 0) w" and "js_lt w x"
  shows "truthy (js_div x w) \<and> js_lt (Num 1) (js_div x w)"
  using assms by (cases w; cases x) (simp_all add: js_lt_def js_div_def)

lemma strict_neq_zero [simp]: "strict_neq w (Num 0) \<longleftrightarrow> w \<noteq> Num 0"
  by (cases w) (simp_all add: strict_neq_def)

lemma not_strict_neq: "\<not> strict_neq a b \<Longrightarrow> a = b"
  by (cases a; cases b) (simp_all add: strict_neq_def)

lemma neq_strict_neq: "a \<noteq> b \<Longrightarrow> strict_neq a b"
  by (cases a; cases b) (simp_all add: strict_neq_def)

lemma strict_neq_pos: "js_lt (Num 0) w \<Longrightarrow> \<not> strict_neq w w \<and> w \<noteq> Num 0"
  by (cases w) (simp_all add: js_lt_def strict_neq_def)

lemma containerSize_onLayout:
  "containerSize (onLayout w h s) =
     (if w \<noteq> Num 0 \<and> h \<noteq> Num 0 \<and>
         (strict_neq (opt_width (containerSize s)) w \<or>
          strict_neq (opt_height (containerSize s)) h)
      then Some \<lparr>width = w, height = h\<rparr> else containerSize s)"
  by (simp add: onLayout_def)

lemma js_add_commute: "js_add a b = js_add b a"
  by (cases a; cases b) (simp_all add: js_add_def)

lemma js_div_zero_falsy: "\<not> truthy (js_div (Num 0) w)"
  by (cases w) (simp_all add: js_div_def)

lemma fst_run_Cons: "fst (run (e # es) s) = fst (run es (fst (handle e s)))"
  by (simp add: split_beta Let_def)

lemma snd_run_Cons: "snd (run (e # es) s) = snd (handle e s) @ snd (run es (fst (handle e s)))"
  by (simp add: split_beta Let_def)

lemma fst_run_append: "fst (run (es @ es') s) = fst (run es' (fst (run es s)))"
  by (induction es arbitrary: s) (simp_all add: split_beta Let_def)

lemma updaters_append: "updaters (out @ out') = updaters out @ updaters out'"
  by (induction out rule: updaters.induct) simp_all

text \<open>Every updater the component hands out was built by \<open>setPosition\<close>.\<close>

lemma updaters_handle:
  "u \<in> set (updaters (snd (handle e s))) \<Longrightarrow> \<exists>x y. u = setPosition x y"
proof (cases e)
  case (Slider a v)
  assume "u \<in> set (updaters (snd (handle e s)))"
  with Slider show ?thesis by (cases a) auto
qed (auto simp add: onPanResponderGrant_def Let_def onPanResponderMove_def
      onPanResponderRelease_def)

lemma updaters_run:
  "u \<in> set (updaters (snd (run es s))) \<Longrightarrow> \<exists>x y. u = setPosition x y"
proof (induction es arbitrary: s)
  case Nil
  then show ?case by simp
next
  case (Cons e es)
  then show ?case
    using updaters_handle [of u e s]
    by (auto simp add: snd_run_Cons updaters_append simp del: run.simps)
qed

lemma setPosition_zero:
  "setPosition x y prevState k = Some (Num 0) \<Longrightarrow> prevState k = Some (Num 0)"
  by (auto simp add: setPosition_def map_add_def split: if_splits option.splits)

text \<open>The slider key after one event, and after a run of events.\<close>

lemma sliderKey_handle:
  "sliderKey (fst (handle e s)) = sliderKey s + (if isRelease e then 1 else 0)"
proof (cases e)
  case (Slider a v)
  then show ?thesis by (cases a) simp_all
qed (simp_all add: render_def onLayout_def onPanResponderGrant_def Let_def
      onPanResponderMove_def onPanResponderRelease_def onImageDataLoad_def onLoad_def
      split: option.splits)

lemma sliderKey_run:
  "sliderKey (fst (run es s)) = sliderKey s + length (filter isRelease es)"
proof (induction es arbitrary: s)
  case Nil
  then show ?case by simp
next
  case (Cons e es)
  have "fst (run (e # es) s) = fst (run es (fst (handle e s)))"
    by (simp add: split_beta Let_def)
  then show ?case
    using Cons.IH [of "fst (handle e s)"] sliderKey_handle [of e s] by simp
qed

text \<open>Only the start and the end of a gesture touch the offsets.\<close>

lemma offset_handle:
  assumes "\<not> isGrant e" and "\<not> isRelease e"
  shows "av_offset (xy_x (pan (fst (handle e s)))) = av_offset (xy_x (pan s))
       \<and> av_offset (xy_y (pan (fst (handle e s)))) = av_offset (xy_y (pan s))"
proof (cases e)
  case (Slider a v)
  then show ?thesis by (cases a) simp_all
qed (use assms in \<open>simp_all add: render_def onLayout_def onPanResponderMove_def
      onImageDataLoad_def onLoad_def xy_setValue_def av_setValue_def split: option.splits\<close>)

lemma offset_run:
  assumes "\<forall>e \<in> set es. \<not> isGrant e \<and> \<not> isRelease e"
  shows "av_offset (xy_x (pan (fst (run es s)))) = av_offset (xy_x (pan s))
       \<and> av_offset (xy_y (pan (fst (run es s)))) = av_offset (xy_y (pan s))"
  using assms
proof (induction es arbitrary: s)
  case Nil
  then show ?case by simp
next
  case (Cons e es)
  then show ?case
    using offset_handle [of e s] by (simp add: fst_run_Cons del: run.simps)
qed

lemma getValue_move:
  "xy_getValue (pan (fst (onPanResponderMove dx dy s)))
     = (js_add (av_offset (xy_x (pan s))) dx, js_add (av_offset (xy_y (pan s))) dy)"
  by (simp add: onPanResponderMove_def xy_getValue_def xy_setValue_def av_getValue_def
      av_setValue_def js_add_commute)

text \<open>
  The rounding to a double: the exponent brackets the number between two powers of 2,
  and the double chosen is within half a unit in the last place.
\<close>

lemma pow2_powi: "pow2 e = 2 powi e"
  by (simp add: pow2_def power_int_def field_simps)

lemma pow2_pos: "0 < pow2 e"
  by (simp add: pow2_def)

lemma exponent_bounds:
  assumes "0 < m"
  shows "pow2 (exponent m) \<le> m \<and> m < pow2 (exponent m + 1)"
proof -
  obtain p q where pq: "quotient_of m = (p, q)"
    by (cases "quotient_of m")
  then have q: "0 < q" and m: "m = of_int p / of_int q"
    using quotient_of_denom_pos quotient_of_div by blast+
  with assms have p: "0 < p"
    by (simp add: zero_less_divide_iff)
  define bp bq where "bp = bitlen p" and "bq = bitlen q"
  have bp: "1 \<le> bp" and bq: "1 \<le> bq"
    using p q bitlen_eq_zero_iff [of p] bitlen_eq_zero_iff [of q] bitlen_nonneg [of p] bitlen_nonneg [of q]
    by (auto simp add: bp_def bq_def)
  have "2 ^ nat (bp - 1) \<le> p" "p < 2 ^ nat bp" "2 ^ nat (bq - 1) \<le> q" "q < 2 ^ nat bq"
    using bitlen_bounds [OF p] bitlen_bounds [OF q] by (simp_all add: bp_def bq_def)
  then have "rat_of_int (2 ^ nat (bp - 1)) \<le> of_int p" "rat_of_int p < of_int (2 ^ nat bp)"
    "rat_of_int (2 ^ nat (bq - 1)) \<le> of_int q" "rat_of_int q < of_int (2 ^ nat bq)"
    by (simp_all only: of_int_le_iff of_int_less_iff)
  then have P: "pow2 (bp - 1) \<le> of_int p" "of_int p < pow2 bp"
    and Q: "pow2 (bq - 1) \<le> of_int q" "of_int q < pow2 bq"
    using bp bq by (simp_all add: pow2_def)
  have up: "m < pow2 (bp - bq + 1)"
  proof -
    have "m < pow2 bp / pow2 (bq - 1)"
      unfolding m using P Q q p pow2_pos [of "bq - 1"]
      by (intro frac_less) simp_all
    also have "\<dots> = pow2 (bp - bq + 1)"
      by (simp add: pow2_powi power_int_diff flip: power_int_diff) (simp add: algebra_simps)
    finally show ?thesis .
  qed
  have low: "pow2 (bp - bq - 1) \<le> m"
  proof -
    have "pow2 (bp - 1) / pow2 bq \<le> m"
      unfolding m using P Q q p pow2_pos [of "bp - 1"]
      by (intro frac_le) simp_all
    moreover have "pow2 (bp - 1) / pow2 bq = pow2 (bp - bq - 1)"
      by (simp add: pow2_powi flip: power_int_diff) (simp add: algebra_simps)
    ultimately show ?thesis by simp
  qed
  show ?thesis
    using up low pq by (auto simp add: exponent_def Let_def bp_def bq_def)
qed

lemma roundTiesToEven_near: "\<bar>of_int (roundTiesToEven n) - n\<bar> \<le> 1 / 2"
proof -
  have "of_int \<lfloor>n\<rfloor> \<le> n" and "n < of_int \<lfloor>n\<rfloor> + 1"
    by linarith+
  then show ?thesis
    unfolding roundTiesToEven_def Let_def by (simp add: abs_le_iff)
qed


lemma double_of_near:
  "\<bar>double_of q - q\<bar> \<le> pow2 (max (exponent \<bar>q\<bar>) (- 1022) - 52) / 2"
proof -
  define u where "u = pow2 (max (exponent \<bar>q\<bar>) (- 1022) - 52)"
  have u: "0 < u" by (simp add: u_def pow2_pos)
  have "double_of q - q = (of_int (roundTiesToEven (q / u)) - q / u) * u"
    using u by (simp add: double_of_def Let_def u_def [symmetric] algebra_simps)
  then have "\<bar>double_of q - q\<bar> = \<bar>of_int (roundTiesToEven (q / u)) - q / u\<bar> * u"
    using u by (simp add: abs_mult)
  also have "\<dots> \<le> 1 / 2 * u"
    using roundTiesToEven_near [of "q / u"] u by (intro mult_right_mono) simp_all
  finally show ?thesis by (simp add: u_def)
qed

text \<open>The double product of two numbers whose doubles and product stay finite.\<close>

lemma double_result_finite:
  assumes "double_of q = r" and "\<bar>r\<bar> < 2 ^ 1024"
  shows "double_result q = Num r"
  using assms by (auto simp add: double_result_def pow2_def Let_def)

lemma js_mul64_finite:
  assumes "double_of a = a'" and "\<bar>a'\<bar> < 2 ^ 1024"
    and "double_of b = b'" and "\<bar>b'\<bar> < 2 ^ 1024"
    and "double_of (a' * b') = r" and "\<bar>r\<bar> < 2 ^ 1024"
  shows "js_mul64 (Num a) (Num b) = Num r"
  using double_result_finite [OF assms(1,2)] double_result_finite [OF assms(3,4)]
    double_result_finite [OF assms(5,6)]
  by (simp add: js_mul64_def)

lemma double_100: "double_of 100 = 100"
  by code_simp





lemma double_145: "double_of (145 / 1000) = 5224175567749775 / 36028797018963968"
  by code_simp

lemma double_145_times_100:
  "double_of (5224175567749775 / 36028797018963968 * 100) = 8162774324609023 / 562949953421312"
  by code_simp

lemma double_345: "double_of (345 / 1000) = 1553741871442821 / 4503599627370496"
  by code_simp

lemma double_345_times_100: "double_of (1553741871442821 / 4503599627370496 * 100) = 69 / 2"
  by code_simp



lemma js_mul64_145:
  "js_mul64 (Num (145 / 1000)) (Num 100) = Num (8162774324609023 / 562949953421312)"
  by (rule js_mul64_finite [OF double_145 _ double_100 _ double_145_times_100]) simp_all

lemma js_mul64_345: "js_mul64 (Num (345 / 1000)) (Num 100) = Num (69 / 2)"
  by (rule js_mul64_finite [OF double_345 _ double_100 _ double_345_times_100]) simp_all

text \<open>
  The value the picker hands to a slider is the rounded percentage itself, computed
  from the double product; the picker does not clamp it.  Near a tie the rounding of
  the product decides: \<^verbatim>\<open>0.145 * 100\<close> is below 14.5 and \<^verbatim>\<open>0.345 * 100\<close> is 34.5.
\<close>

lemma sliderValue_finite:
  "js_mul64 (Num f) (Num 100) = Num r \<Longrightarrow>
   sliderValue a (focalPoint(axisKey a \<mapsto> Num f)) = Num (of_int \<lfloor>r + 1 / 2\<rfloor>)"
  by (simp add: sliderValue_def Math_round_def getProp_def)

lemma sliderValue_near_ties:
  "sliderValue AxisX [''x'' \<mapsto> Num (145 / 1000)] = Num 14
   \<and> sliderValue AxisX [''x'' \<mapsto> Num (345 / 1000)] = Num 35"
proof
  have "\<lfloor>8162774324609023 / 562949953421312 + 1 / 2 :: rat\<rfloor> = 14"
    by (simp add: floor_eq_iff)
  then show "sliderValue AxisX [''x'' \<mapsto> Num (145 / 1000)] = Num 14"
    using sliderValue_finite [OF js_mul64_145, of AxisX Map.empty] by simp
  have "\<lfloor>69 / 2 + 1 / 2 :: rat\<rfloor> = 35"
    by (simp add: floor_eq_iff)
  then show "sliderValue AxisX [''x'' \<mapsto> Num (345 / 1000)] = Num 35"
    using sliderValue_finite [OF js_mul64_345, of AxisX Map.empty] by simp
qed


text \<open>A slider set to a percentage other than zero emits that axis alone.\<close>

lemma slider_nonzero_emits_axis:
  "p \<noteq> 0 \<Longrightarrow>
   emitted (snd (onAxisSliderChanged a (Num p) s)) = [[axisKey a \<mapsto> Num (p / 100)]]"
  by (cases a) (simp_all add: emitted_def partialUpdate_setPosition js_div_def)

section \<open>The drag's end\<close>

text \<open>
  Claim C2.  Nothing is clamped when the update is emitted: when the stored container
  size has a positive width and the drag ends at an x coordinate greater than that
  width, the update handed to the change callback has the key \<open>x\<close>, and its value,
  the quotient of the coordinate by the width, is greater than 1.  The same holds of
  \<open>y\<close> and the height.
\<close>

theorem release_beyond_container_unclamped:
  assumes "containerSize s = Some c"
  shows "(js_lt (Num 0) (width c) \<and> js_lt (width c) x \<longrightarrow>
           (\<exists>u. emitted (snd (onPanResponderRelease x y s)) = [u] \<and>
                u ''x'' = Some (js_div x (width c)) \<and> js_lt (Num 1) (js_div x (width c))))
       \<and> (js_lt (Num 0) (height c) \<and> js_lt (height c) y \<longrightarrow>
           (\<exists>u. emitted (snd (onPanResponderRelease x y s)) = [u] \<and>
                u ''y'' = Some (js_div y (height c)) \<and> js_lt (Num 1) (js_div y (height c))))"
  using assms js_div_beyond [of "width c" x] js_div_beyond [of "height c" y]
  by (auto simp add: emitted_release partialUpdate_setPosition opt_width_def opt_height_def
      map_add_def)

theorem release_beyond_container_unclamped_witness:
  "js_lt (Num 0) (Num 200) \<and> js_lt (Num 200) (Num 250) \<and>
   js_lt (Num 0) (Num 100) \<and> js_lt (Num 100) (Num 120) \<and>
   (\<exists>u. emitted (snd (onPanResponderRelease (Num 250) (Num 120)
          (initial\<lparr>containerSize := Some \<lparr>width = Num 200, height = Num 100\<rparr>\<rparr>))) = [u]
       \<and> u ''x'' = Some (Num (5 / 4)) \<and> js_lt (Num 1) (Num (5 / 4))) \<and>
   (\<exists>u. emitted (snd (onPanResponderRelease (Num 250) (Num 120)
          (initial\<lparr>containerSize := Some \<lparr>width = Num 200, height = Num 100\<rparr>\<rparr>))) = [u]
       \<and> u ''y'' = Some (Num (6 / 5)) \<and> js_lt (Num 1) (Num (6 / 5)))"
  using release_beyond_container_unclamped
    [of "initial\<lparr>containerSize := Some \<lparr>width = Num 200, height = Num 100\<rparr>\<rparr>"
        "\<lparr>width = Num 200, height = Num 100\<rparr>" "Num 250" "Num 120"]
  by (simp add: js_lt_def js_div_def)

text \<open>
  Claim C3.  The round trip at a measured container: mounted, measured at 200 by 100
  and rendered with the focal point \<open>{x: 0.5, y: 0.25}\<close>, the component places the
  cursor at the pixel position \<open>(100, 25)\<close>; a drag that ends at \<open>(100, 25)\<close> then
  emits the update \<open>{x: 0.5, y: 0.25}\<close>.
\<close>

theorem round_trip_200_100:
  "xy_getValue (pan (fst (run [Layout (Num 200) (Num 100),
                                Render [''x'' \<mapsto> Num (1 / 2), ''y'' \<mapsto> Num (1 / 4)]] initial)))
     = (Num 100, Num 25)
   \<and> emitted (snd (handle (Release (Num 100) (Num 25))
        (fst (run [Layout (Num 200) (Num 100),
                   Render [''x'' \<mapsto> Num (1 / 2), ''y'' \<mapsto> Num (1 / 4)]] initial))))
     = [[''x'' \<mapsto> Num (1 / 2), ''y'' \<mapsto> Num (1 / 4)]]"
  by (simp add: initial_def onLayout_def render_def strict_neq_def opt_width_def opt_height_def
      xy_getValue_def xy_setValue_def av_getValue_def av_setValue_def xy_new_def av_new_def
      js_mul_def js_add_def js_div_def getProp_def emitted_release partialUpdate_setPosition)

text \<open>
  Claim C4.  While the container size is still unset, a drag's end at any coordinates
  emits one update that has neither the key \<open>x\<close> nor the key \<open>y\<close>: the quotient by
  the unknown dimension is \<^verbatim>\<open>NaN\<close>, which is falsy, so no \<^verbatim>\<open>NaN\<close> and no infinity
  reaches the callback.
\<close>

theorem release_unmeasured_omits_both_axes:
  "containerSize s = None \<Longrightarrow> emitted (snd (onPanResponderRelease x y s)) = [Map.empty]"
  by (simp add: emitted_release partialUpdate_setPosition opt_width_def opt_height_def)

theorem release_unmeasured_omits_both_axes_witness:
  "containerSize initial = None \<and>
   emitted (snd (onPanResponderRelease (Num 50) (Num 50) initial)) = [Map.empty]"
  using release_unmeasured_omits_both_axes [of initial "Num 50" "Num 50"]
  by (simp add: initial_def)

section \<open>The layout measurement\<close>

text \<open>
  Claim C5.  \<^verbatim>\<open>onLayout\<close> changes the stored container size if and only if the width
  and the height are both non-zero and the pair differs from the stored one (for a
  width and a height that are not both \<^verbatim>\<open>undefined\<close>, as a layout event's are), and a
  change stores the measured pair.  With a positive width and height, a second call
  with the same dimensions changes nothing; with a zero width or a zero height, no
  call changes anything.
\<close>

theorem onLayout_updates_iff:
  "(\<not> (w = Undefined \<and> h = Undefined) \<longrightarrow>
      (containerSize (onLayout w h s) \<noteq> containerSize s \<longleftrightarrow>
         w \<noteq> Num 0 \<and> h \<noteq> Num 0 \<and> containerSize s \<noteq> Some \<lparr>width = w, height = h\<rparr>))
   \<and> (containerSize (onLayout w h s) \<noteq> containerSize s \<longrightarrow>
         containerSize (onLayout w h s) = Some \<lparr>width = w, height = h\<rparr>)
   \<and> (js_lt (Num 0) w \<and> js_lt (Num 0) h \<longrightarrow> onLayout w h (onLayout w h s) = onLayout w h s)
   \<and> (w = Num 0 \<or> h = Num 0 \<longrightarrow> onLayout w h s = s)"
proof (intro conjI impI)
  assume nu: "\<not> (w = Undefined \<and> h = Undefined)"
  show "containerSize (onLayout w h s) \<noteq> containerSize s \<longleftrightarrow>
         w \<noteq> Num 0 \<and> h \<noteq> Num 0 \<and> containerSize s \<noteq> Some \<lparr>width = w, height = h\<rparr>"
  proof (cases "containerSize s")
    case None
    with nu show ?thesis
      by (cases w; cases h)
        (simp_all add: containerSize_onLayout opt_width_def opt_height_def strict_neq_def)
  next
    case (Some c)
    have eq: "c = \<lparr>width = w, height = h\<rparr> \<longleftrightarrow> width c = w \<and> height c = h"
      by (cases c) simp
    show ?thesis
    proof (cases "strict_neq (width c) w \<or> strict_neq (height c) h")
      case True
      with Some show ?thesis
        by (auto simp add: containerSize_onLayout opt_width_def opt_height_def)
    next
      case False
      then have "width c = w" and "height c = h"
        using not_strict_neq by blast+
      with Some False eq show ?thesis
        by (simp add: containerSize_onLayout opt_width_def opt_height_def)
    qed
  qed
next
  assume "containerSize (onLayout w h s) \<noteq> containerSize s"
  then show "containerSize (onLayout w h s) = Some \<lparr>width = w, height = h\<rparr>"
    by (simp add: containerSize_onLayout split: if_splits)
next
  assume "js_lt (Num 0) w \<and> js_lt (Num 0) h"
  then show "onLayout w h (onLayout w h s) = onLayout w h s"
    using strict_neq_pos [of w] strict_neq_pos [of h]
    by (simp add: onLayout_def opt_width_def opt_height_def)
next
  assume "w = Num 0 \<or> h = Num 0"
  then show "onLayout w h s = s"
    by (auto simp add: onLayout_def)
qed

theorem onLayout_updates_iff_witness:
  "\<not> (Num 200 = Undefined \<and> Num 100 = Undefined) \<and>
   js_lt (Num 0) (Num 200) \<and> js_lt (Num 0) (Num 100) \<and>
   containerSize (onLayout (Num 200) (Num 100) initial) \<noteq> containerSize initial \<and>
   containerSize (onLayout (Num 200) (Num 100) initial)
     = Some \<lparr>width = Num 200, height = Num 100\<rparr> \<and>
   onLayout (Num 200) (Num 100) (onLayout (Num 200) (Num 100) initial)
     = onLayout (Num 200) (Num 100) initial \<and>
   (Num 0 = Num 0 \<or> Num 100 = Num 0) \<and>
   onLayout (Num 0) (Num 100) (onLayout (Num 200) (Num 100) initial)
     = onLayout (Num 200) (Num 100) initial"
  using onLayout_updates_iff [of "Num 200" "Num 100" initial]
    onLayout_updates_iff [of "Num 0" "Num 100" "onLayout (Num 200) (Num 100) initial"]
  by (simp add: js_lt_def initial_def)

section \<open>The slider key\<close>

text \<open>
  Claim C6.  The slider key (the specification's display epoch) is 0 at mount; a
  drag's end adds exactly 1 to it; a slider change leaves it as it is, and so does
  every event that is not a drag's end; so after any run of events it is the key
  before plus the number of drag ends in the run, never less than before.
\<close>

theorem sliderKey_counts_releases:
  "sliderKey initial = 0
   \<and> sliderKey (fst (onPanResponderRelease x y s)) = sliderKey s + 1
   \<and> sliderKey (fst (onAxisSliderChanged a v s)) = sliderKey s
   \<and> (\<not> isRelease e \<longrightarrow> sliderKey (fst (handle e s)) = sliderKey s)
   \<and> sliderKey (fst (run es s)) = sliderKey s + length (filter isRelease es)
   \<and> sliderKey s \<le> sliderKey (fst (run es s))"
  using sliderKey_handle [of e s] sliderKey_handle [of "Release x y" s]
    sliderKey_handle [of "Slider a v" s] sliderKey_run [of es s]
  by (simp add: initial_def)

theorem sliderKey_counts_releases_witness:
  "\<not> isRelease (Grant (Num 10) (Num 10))
   \<and> sliderKey (fst (handle (Grant (Num 10) (Num 10)) initial)) = 0
   \<and> sliderKey (fst (run [Grant (Num 10) (Num 10), Move (Num 20) (Num (- 5)),
        Release (Num 30) (Num 5), Slider AxisX (Num 75), Release (Num 1) (Num 1)] initial)) = 2"
  using sliderKey_counts_releases [where e = "Grant (Num 10) (Num 10)" and s = initial
      and es = "[Grant (Num 10) (Num 10), Move (Num 20) (Num (- 5)),
        Release (Num 30) (Num 5), Slider AxisX (Num 75), Release (Num 1) (Num 1)]"]
  by (simp add: initial_def)

section \<open>The sliders\<close>

text \<open>
  Claim C1, at the percentage 0.  The slider's change handler called with 0 leaves the
  state as it is and hands the change callback an updater whose partial update is
  empty: the quotient \<open>0 / 100\<close> is falsy, so the axis key is not written.
\<close>

theorem slider_zero_emits_no_key:
  "emitted (snd (onAxisSliderChanged a (Num 0) s)) = [Map.empty]
   \<and> fst (onAxisSliderChanged a (Num 0) s) = s"
  by (cases a) (simp_all add: emitted_def partialUpdate_setPosition js_div_def)



section \<open>The gesture\<close>

text \<open>
  Claim C8, at the touch origin \<open>(10, 10)\<close>.  On a freshly mounted component the
  start of a drag sets the animated value to \<open>(10, 10)\<close> and then the offset to the
  value just set, without resetting the value: the animated value plus the offset is
  \<open>(20, 20)\<close>, not the touch origin \<open>(10, 10)\<close>.
\<close>

theorem grant_doubles_touch_origin:
  "xy_getValue (pan (fst (onPanResponderGrant (Num 10) (Num 10) initial))) = (Num 20, Num 20)
   \<and> xy_getValue (pan (fst (onPanResponderGrant (Num 10) (Num 10) initial))) \<noteq> (Num 10, Num 10)"
  by (simp add: onPanResponderGrant_def Let_def xy_getValue_def xy_setValue_def xy_setOffset_def
      av_getValue_def av_setValue_def av_setOffset_def js_add_def)

text \<open>
  Claim C9.  During a gesture, that is after a drag's start at \<open>(x, y)\<close> followed by
  any events other than a start or an end (renders and earlier moves among them), a
  move with the cumulative displacement \<open>(dx, dy)\<close> leaves the animated value plus
  the offset at \<open>(x + dx, y + dy)\<close>; after a start at \<open>(10, 10)\<close> and a move by
  \<open>(20, -5)\<close> it is \<open>(30, 5)\<close>.  A move emits nothing.
\<close>

theorem move_tracks_baseline_plus_delta:
  "((\<forall>e \<in> set es. \<not> isGrant e \<and> \<not> isRelease e) \<longrightarrow>
      xy_getValue (pan (fst (run (Grant x y # es @ [Move dx dy]) s)))
        = (js_add x dx, js_add y dy))
   \<and> xy_getValue (pan (fst (run [Grant (Num 10) (Num 10), Move (Num 20) (Num (- 5))] s)))
        = (Num 30, Num 5)
   \<and> snd (onPanResponderMove dx dy s) = []
   \<and> updaters (snd (handle (Move dx dy) s)) = []"
proof (intro conjI impI)
  assume a: "\<forall>e \<in> set es. \<not> isGrant e \<and> \<not> isRelease e"
  let ?g = "fst (handle (Grant x y) s)"
  let ?m = "fst (run es ?g)"
  have g: "av_offset (xy_x (pan ?g)) = x \<and> av_offset (xy_y (pan ?g)) = y"
    by (simp add: onPanResponderGrant_def Let_def xy_setValue_def xy_setOffset_def
        av_setValue_def av_setOffset_def)
  have "fst (run (Grant x y # es @ [Move dx dy]) s) = fst (onPanResponderMove dx dy ?m)"
    by (simp add: fst_run_Cons fst_run_append del: run.simps) (simp add: split_beta)
  then show "xy_getValue (pan (fst (run (Grant x y # es @ [Move dx dy]) s)))
        = (js_add x dx, js_add y dy)"
    using offset_run [OF a, of ?g] g by (simp add: getValue_move)
next
  show "xy_getValue (pan (fst (run [Grant (Num 10) (Num 10), Move (Num 20) (Num (- 5))] s)))
        = (Num 30, Num 5)"
    by (simp add: fst_run_Cons del: run.simps)
      (simp add: getValue_move onPanResponderGrant_def Let_def xy_setValue_def xy_setOffset_def
        av_setValue_def av_setOffset_def js_add_def)
qed (simp_all add: onPanResponderMove_def)

theorem move_tracks_baseline_plus_delta_witness:
  "list_all (\<lambda>e. \<not> isGrant e \<and> \<not> isRelease e)
      [Move (Num 3) (Num 4), Render [''x'' \<mapsto> Num (1 / 2)], Layout (Num 200) (Num 100)]
   \<and> xy_getValue (pan (fst (run (Grant (Num 10) (Num 10)
        # [Move (Num 3) (Num 4), Render [''x'' \<mapsto> Num (1 / 2)], Layout (Num 200) (Num 100)]
        @ [Move (Num 20) (Num (- 5))]) initial))) = (Num 30, Num 5)"
  using move_tracks_baseline_plus_delta
    [of "[Move (Num 3) (Num 4), Render [''x'' \<mapsto> Num (1 / 2)], Layout (Num 200) (Num 100)]"
      "Num 10" "Num 10" "Num 20" "Num (- 5)" initial]
  by (simp add: js_add_def)

section \<open>The truthiness test of \<open>setPosition\<close>\<close>

text \<open>
  Claim C10.  The partial update of \<open>setPosition\<close> has the key of an axis exactly
  when the value given for that axis is truthy; zero and \<^verbatim>\<open>NaN\<close> are not.  So a slider
  change to 0 emits an update without the key of its axis, a drag that ends at the
  pixel coordinate 0 on an axis emits an update without the key of that axis,
  whatever the container size, and no updater that any run of events hands to the
  change callback turns a property of the focal point into 0 that was not 0 already.
\<close>

theorem zero_axis_is_omitted:
  "partialUpdate (setPosition x y) ''x'' = (if truthy x then Some x else None)
   \<and> partialUpdate (setPosition x y) ''y'' = (if truthy y then Some y else None)
   \<and> \<not> truthy (Num 0) \<and> \<not> truthy NaN
   \<and> (\<exists>u. emitted (snd (onAxisSliderChanged a (Num 0) s)) = [u] \<and> axisKey a \<notin> dom u)
   \<and> (\<exists>u. emitted (snd (onPanResponderRelease (Num 0) y s)) = [u] \<and> ''x'' \<notin> dom u)
   \<and> (\<exists>u. emitted (snd (onPanResponderRelease x (Num 0) s)) = [u] \<and> ''y'' \<notin> dom u)
   \<and> (\<forall>u \<in> set (updaters (snd (run es s))).
        \<forall>k. u prevState k = Some (Num 0) \<longrightarrow> prevState k = Some (Num 0))"
proof (intro conjI)
  show "\<exists>u. emitted (snd (onAxisSliderChanged a (Num 0) s)) = [u] \<and> axisKey a \<notin> dom u"
    by (cases a) (simp_all add: emitted_def partialUpdate_setPosition js_div_def)
  show "\<exists>u. emitted (snd (onPanResponderRelease (Num 0) y s)) = [u] \<and> ''x'' \<notin> dom u"
    using js_div_zero_falsy [of "opt_width (containerSize s)"]
    by (simp add: emitted_release partialUpdate_setPosition dom_def map_add_def)
  show "\<exists>u. emitted (snd (onPanResponderRelease x (Num 0) s)) = [u] \<and> ''y'' \<notin> dom u"
    using js_div_zero_falsy [of "opt_height (containerSize s)"]
    by (simp add: emitted_release partialUpdate_setPosition dom_def map_add_def)
  show "\<forall>u \<in> set (updaters (snd (run es s))).
        \<forall>k. u prevState k = Some (Num 0) \<longrightarrow> prevState k = Some (Num 0)"
    using updaters_run [of _ es s] setPosition_zero by blast
qed (simp_all add: partialUpdate_setPosition map_add_def)

theorem zero_axis_is_omitted_witness:
  "updaters (snd (run [Slider AxisX (Num 0), Release (Num 0) (Num 50)]
      (initial\<lparr>containerSize := Some \<lparr>width = Num 200, height = Num 100\<rparr>\<rparr>)))
     = [setPosition (Num 0) Undefined, setPosition (Num 0) (Num (1 / 2))]
   \<and> setPosition (Num 0) Undefined [''x'' \<mapsto> Num 0] ''x'' = Some (Num 0)
   \<and> [''x'' \<mapsto> Num 0] ''x'' = Some (Num 0)"
  using zero_axis_is_omitted
    [where es = "[Slider AxisX (Num 0), Release (Num 0) (Num 50)]"
      and s = "initial\<lparr>containerSize := Some \<lparr>width = Num 200, height = Num 100\<rparr>\<rparr>"
      and prevState = "[''x'' \<mapsto> Num 0]" and a = AxisX and x = "Num 0" and y = "Num 50"]
  by (simp add: onPanResponderRelease_def opt_width_def opt_height_def js_div_def setPosition_def)

end
